theory Spec2Isabelle
  imports Complex_Main
begin

section \<open>Python values, exceptions and number rendering\<close>

text \<open>
  The add-on is one Python module, \<^verbatim>\<open>io_import_pixelart.py\<close>: the function
  \<^verbatim>\<open>read_pixel_art\<close> and the operator method \<^verbatim>\<open>ImportPixelArt.execute\<close>.
  Exceptions are values of \<open>pyexc\<close>; a computation that may raise returns
  \<open>pyexc + 'a\<close> with \<open>Inl\<close> for the raised exception.
\<close>

datatype pyexc =
    ValueError
  | KeyError string
  | IndexError
  | AttributeError
  | TypeError
  | OverflowError
  | IOError string
  | RuntimeError

text \<open>The keyword arguments handed to \<^verbatim>\<open>str.format\<close> are strings and integers.\<close>

datatype pyval = PStr string | PInt int

text \<open>
  Pixel samples are the floats of \<^verbatim>\<open>image.pixels\<close>. They are modelled as exact
  rationals: the host stores single-precision samples, so the comparisons \<^verbatim>\<open>a == 0\<close>,
  \<^verbatim>\<open>a < 1\<close>, tuple equality and the product \<^verbatim>\<open>r * 255\<close> (at most 32 significant
  bits, computed in double precision) are all exact on them.
\<close>

type_synonym color = "rat \<times> rat \<times> rat \<times> rat"

definition py_int :: "rat \<Rightarrow> int" where
  \<comment> \<open>\<^verbatim>\<open>int(v)\<close> on a float: truncation towards zero\<close>
  "py_int q = (if 0 \<le> q then \<lfloor>q\<rfloor> else \<lceil>q\<rceil>)"

definition hexdigit :: "nat \<Rightarrow> char" where
  "hexdigit n = ''0123456789ABCDEF'' ! (n mod 16)"

definition decdigit :: "nat \<Rightarrow> char" where
  "decdigit n = ''0123456789'' ! (n mod 10)"

fun hex_nat :: "nat \<Rightarrow> string" where
  "hex_nat n = (if n < 16 then [hexdigit n] else hex_nat (n div 16) @ [hexdigit n])"

fun dec_nat :: "nat \<Rightarrow> string" where
  "dec_nat n = (if n < 10 then [decdigit n] else dec_nat (n div 10) @ [decdigit n])"

definition fmt_02X :: "int \<Rightarrow> string" where
  \<comment> \<open>\<^verbatim>\<open>'%02X' % n\<close>: upper-case hexadecimal, zero-padded to a total width of two;
      a negative number carries its sign\<close>
  "fmt_02X n =
     (if n < 0 then CHR ''-'' # hex_nat (nat (- n))
      else let s = hex_nat (nat n) in if length s < 2 then CHR ''0'' # s else s)"

definition str_int :: "int \<Rightarrow> string" where
  \<comment> \<open>\<^verbatim>\<open>str(n)\<close> of an integer\<close>
  "str_int n = (if n < 0 then CHR ''-'' # dec_nat (nat (- n)) else dec_nat (nat n))"

definition py_str :: "pyval \<Rightarrow> string" where
  "py_str v = (case v of PStr s \<Rightarrow> s | PInt n \<Rightarrow> str_int n)"

definition strcolor :: "color \<Rightarrow> string" where
  \<comment> \<open>line 105\<close>
  "strcolor c =
     (case c of (r, g, b, a) \<Rightarrow>
        fmt_02X (py_int (r * 255)) @ fmt_02X (py_int (g * 255)) @
        fmt_02X (py_int (b * 255)) @ fmt_02X (py_int (a * 255)))"

declare hex_nat.simps [simp del] dec_nat.simps [simp del]

section \<open>The name templates: \<^verbatim>\<open>str.format(**params)\<close>\<close>

text \<open>
  The four name settings are Python format strings, expanded with
  \<^verbatim>\<open>template.format(**params)\<close>. The scanner below follows the interpreter's
  own loop over the template, character by character: literal text with the doubled
  braces \<^verbatim>\<open>{{\<close> and \<^verbatim>\<open>}}\<close>, and replacement fields
  \<^verbatim>\<open>{field_name!conversion:format_spec}\<close>. A field is rendered as soon as it has
  been scanned, so the first error in reading order is the one raised. The scanner
  returns the pieces in order and a flag telling that scanning stopped at malformed
  syntax (a \<^verbatim>\<open>ValueError\<close>) after them.
\<close>

datatype piece = Lit string | Fld string "char option" string

datatype mode =
    Text string
  | Name string
  | Bracket string
  | Conv string
  | Spec string "char option" string nat

definition emit :: "piece \<Rightarrow> piece list \<times> bool \<Rightarrow> piece list \<times> bool" where
  "emit p r = (p # fst r, snd r)"

fun scan :: "mode \<Rightarrow> string \<Rightarrow> piece list \<times> bool" where
  "scan (Text acc) [] = ([Lit acc], False)"
| "scan (Text acc) [c] =
     (if c = CHR ''{'' \<or> c = CHR ''}'' then ([Lit acc], True)
      else ([Lit (acc @ [c])], False))"
| "scan (Text acc) (c # d # cs) =
     (if c = CHR ''}'' then
        (if d = c then scan (Text (acc @ [c])) cs else ([Lit acc], True))
      else if c = CHR ''{'' then
        (if d = c then scan (Text (acc @ [c])) cs
         else emit (Lit acc) (scan (Name []) (d # cs)))
      else scan (Text (acc @ [c])) (d # cs))"
| "scan (Name acc) [] = ([], True)"
| "scan (Name acc) (c # cs) =
     (if c = CHR ''{'' then ([], True)
      else if c = CHR ''['' then scan (Bracket (acc @ [c])) cs
      else if c = CHR ''}'' then emit (Fld acc None []) (scan (Text []) cs)
      else if c = CHR '':'' then scan (Spec acc None [] 1) cs
      else if c = CHR ''!'' then scan (Conv acc) cs
      else scan (Name (acc @ [c])) cs)"
| "scan (Bracket acc) [] = ([], True)"
| "scan (Bracket acc) (c # cs) =
     (if c = CHR '']'' then scan (Name (acc @ [c])) cs
      else scan (Bracket (acc @ [c])) cs)"
| "scan (Conv acc) [] = ([], True)"
| "scan (Conv acc) [c] = ([], True)"
| "scan (Conv acc) (c # d # cs) =
     (if d = CHR ''}'' then emit (Fld acc (Some c) []) (scan (Text []) cs)
      else if d = CHR '':'' then scan (Spec acc (Some c) [] 1) cs
      else ([], True))"
| "scan (Spec nm cv acc k) [] = ([], True)"
| "scan (Spec nm cv acc k) (c # cs) =
     (if c = CHR ''{'' then scan (Spec nm cv (acc @ [c]) (Suc k)) cs
      else if c = CHR ''}'' then
        (if k \<le> 1 then emit (Fld nm cv acc) (scan (Text []) cs)
         else scan (Spec nm cv (acc @ [c]) (k - 1)) cs)
      else scan (Spec nm cv (acc @ [c]) k) cs)"

text \<open>
  The first part of a field name (up to the first \<^verbatim>\<open>.\<close> or \<^verbatim>\<open>[\<close>) is a
  positional index when it is empty or all digits, and a keyword otherwise. An index
  beyond \<^verbatim>\<open>PY_SSIZE_T_MAX\<close> is a \<^verbatim>\<open>ValueError\<close>.
\<close>

datatype intres = Index int | NotInteger | TooManyDigits

definition ssize_max :: int where
  "ssize_max = 2 ^ 63 - 1"

definition digit_value :: "char \<Rightarrow> int option" where
  "digit_value c =
     (let n = (of_char c :: int) in if 48 \<le> n \<and> n \<le> 57 then Some (n - 48) else None)"

fun get_integer_from :: "int \<Rightarrow> string \<Rightarrow> intres" where
  "get_integer_from acc [] = Index acc"
| "get_integer_from acc (c # cs) =
     (case digit_value c of
        None \<Rightarrow> NotInteger
      | Some d \<Rightarrow>
          if acc > (ssize_max - d) div 10 then TooManyDigits
          else get_integer_from (acc * 10 + d) cs)"

definition get_integer :: "string \<Rightarrow> intres" where
  "get_integer s = (if s = [] then NotInteger else get_integer_from 0 s)"

text \<open>
  What a field can fail with. \<open>MissingKey\<close> is the \<^verbatim>\<open>KeyError\<close> of the keyword
  lookup, \<open>Positional\<close> the \<^verbatim>\<open>IndexError\<close> of a positional field (the call passes
  no positional arguments), \<open>Syntax\<close> a \<^verbatim>\<open>ValueError\<close> of the template itself,
  and \<open>Render\<close> whatever attribute access, indexing, conversion or the format
  specification of the looked-up value raises.
\<close>

datatype fmt_err = MissingKey string | Positional | Syntax | Render pyexc

definition to_exc :: "fmt_err \<Rightarrow> pyexc" where
  "to_exc e =
     (case e of
        MissingKey k \<Rightarrow> KeyError k
      | Positional \<Rightarrow> IndexError
      | Syntax \<Rightarrow> ValueError
      | Render x \<Rightarrow> x)"

datatype pyobj = Val pyval | Opaque nat

type_synonym params = "(string \<times> pyval) list"

text \<open>
  The surroundings of a run, none of which is code of the add-on:
  \<^item> \<open>py_access\<close> and \<open>py_format\<close>: the interpreter's attribute access, indexing and
    conversion of a looked-up value, and its \<^verbatim>\<open>__format__\<close> with a non-empty
    format specification;
  \<^item> \<open>load_image\<close>: what \<^verbatim>\<open>bpy.data.images.load\<close> yields for a path;
  \<^item> \<open>fails\<close>: which calls into the host raise (by their number in the run);
  \<^item> \<open>unique_name\<close>: the name the host gives a new datablock, from the names in use
    and the requested one;
  \<^item> \<open>os_path_tail\<close>: the second component of the platform's
    \<^verbatim>\<open>os.path.split\<close>.
\<close>

record image =
  channels :: nat
  width :: nat
  height :: nat
  pixels :: "rat list"

record env =
  py_access :: "pyval \<Rightarrow> string \<Rightarrow> char option \<Rightarrow> pyexc + pyobj"
  py_format :: "pyobj \<Rightarrow> string \<Rightarrow> pyexc + string"
  load_image :: "string \<Rightarrow> pyexc + image"
  fails :: "nat \<Rightarrow> bool"
  unique_name :: "string list \<Rightarrow> string \<Rightarrow> string"
  os_path_tail :: "string \<Rightarrow> string"

definition is_name_end :: "char \<Rightarrow> bool" where
  "is_name_end c = (c = CHR ''.'' \<or> c = CHR ''['')"

definition get_field_object ::
  "env \<Rightarrow> params \<Rightarrow> string \<Rightarrow> char option \<Rightarrow> fmt_err + pyobj" where
  "get_field_object E p nm cv =
     (let first = takeWhile (\<lambda>c. \<not> is_name_end c) nm;
          rest = dropWhile (\<lambda>c. \<not> is_name_end c) nm
      in case get_integer first of
           TooManyDigits \<Rightarrow> Inl Syntax
         | Index i \<Rightarrow> Inl Positional
         | NotInteger \<Rightarrow>
             if first = [] then Inl Positional
             else (case map_of p first of
                     None \<Rightarrow> Inl (MissingKey first)
                   | Some v \<Rightarrow>
                       if rest = [] \<and> cv = None then Inr (Val v)
                       else (case py_access E v rest cv of
                               Inl x \<Rightarrow> Inl (Render x)
                             | Inr ob \<Rightarrow> Inr ob)))"

definition render_field :: "env \<Rightarrow> pyobj \<Rightarrow> string \<Rightarrow> fmt_err + string" where
  "render_field E ob sp =
     (case ob of
        Val v \<Rightarrow>
          if sp = [] then Inr (py_str v)
          else (case py_format E ob sp of Inl x \<Rightarrow> Inl (Render x) | Inr s \<Rightarrow> Inr s)
      | Opaque n \<Rightarrow>
          (case py_format E ob sp of Inl x \<Rightarrow> Inl (Render x) | Inr s \<Rightarrow> Inr s))"

definition output_markup ::
  "env \<Rightarrow> params \<Rightarrow> (string \<Rightarrow> fmt_err + string) \<Rightarrow>
   string \<Rightarrow> char option \<Rightarrow> string \<Rightarrow> fmt_err + string" where
  "output_markup E p expand nm cv sp =
     (case get_field_object E p nm cv of
        Inl e \<Rightarrow> Inl e
      | Inr ob \<Rightarrow>
          (case (if CHR ''{'' \<in> set sp then expand sp else Inr sp) of
             Inl e \<Rightarrow> Inl e
           | Inr sp' \<Rightarrow> render_field E ob sp'))"

fun render_pieces ::
  "env \<Rightarrow> params \<Rightarrow> (string \<Rightarrow> fmt_err + string) \<Rightarrow> piece list \<Rightarrow> bool \<Rightarrow>
   fmt_err + string" where
  "render_pieces E p expand [] bad = (if bad then Inl Syntax else Inr [])"
| "render_pieces E p expand (Lit s # ps) bad =
     (case render_pieces E p expand ps bad of
        Inl e \<Rightarrow> Inl e
      | Inr t \<Rightarrow> Inr (s @ t))"
| "render_pieces E p expand (Fld nm cv sp # ps) bad =
     (case output_markup E p expand nm cv sp of
        Inl e \<Rightarrow> Inl e
      | Inr s \<Rightarrow>
          (case render_pieces E p expand ps bad of
             Inl e \<Rightarrow> Inl e
           | Inr t \<Rightarrow> Inr (s @ t)))"

text \<open>
  \<^verbatim>\<open>build_string\<close> with its recursion depth: a format specification that contains
  a field is itself expanded, one level deep; a field inside that one raises
  \<^verbatim>\<open>ValueError\<close> (``Max string recursion exceeded'').
\<close>

primrec build_string :: "env \<Rightarrow> params \<Rightarrow> nat \<Rightarrow> string \<Rightarrow> fmt_err + string" where
  "build_string E p 0 s = Inl Syntax"
| "build_string E p (Suc d) s =
     render_pieces E p (build_string E p d) (fst (scan (Text []) s)) (snd (scan (Text []) s))"

definition format :: "env \<Rightarrow> string \<Rightarrow> params \<Rightarrow> fmt_err + string" where
  \<comment> \<open>\<^verbatim>\<open>template.format(**params)\<close>\<close>
  "format E template p = build_string E p 2 template"

section \<open>The host: scene registries and calls into them\<close>

text \<open>
  The host application is outside the add-on. Its registries are lists; a handle is
  the index at which a datablock was appended. A material carries its base colour
  and its node tree (nodes in creation order, links as pairs of sockets).
\<close>

datatype sockval = VColor color | VFloat rat

record node =
  bl_idname :: string
  input_default :: "nat \<rightharpoonup> sockval"

record link =
  from_node :: nat
  from_socket :: nat
  to_node :: nat
  to_socket :: nat

record material =
  mat_name :: string
  diffuse_color :: color
  mat_use_nodes :: bool
  nodes :: "node list"
  links :: "link list"

record mesh =
  me_name :: string
  me_verts :: "(int \<times> int \<times> int) list"
  me_edges :: "(nat \<times> nat) list"
  me_faces :: "(nat \<times> nat \<times> nat \<times> nat) list"
  me_materials :: "nat list"

record object =
  ob_name :: string
  ob_data :: "nat option"
  location :: "int \<times> int \<times> int"
  parent :: "nat option"

datatype image_event = ImageLoad nat | UserClear nat | ImageRemove nat

datatype report = FormatError string pyexc | IllegalKey string pyexc

record host =
  bpy_data_materials :: "material list"
  bpy_data_meshes :: "mesh list"
  bpy_data_objects :: "object list"
  bpy_context_collection_objects :: "nat list"
  image_log :: "image_event list"
  calls :: nat
  reports :: "report list"

text \<open>
  A statement that calls the host either raises or returns a value, and leaves a host
  state in both cases.
\<close>

type_synonym 'a act = "host \<Rightarrow> (pyexc + 'a) \<times> host"

definition ret :: "'a \<Rightarrow> 'a act" where
  "ret v h = (Inr v, h)"

definition raise :: "pyexc \<Rightarrow> 'a act" where
  "raise e h = (Inl e, h)"

definition bnd :: "'a act \<Rightarrow> ('a \<Rightarrow> 'b act) \<Rightarrow> 'b act" where
  "bnd m f h = (case m h of (Inl e, h') \<Rightarrow> (Inl e, h') | (Inr v, h') \<Rightarrow> f v h')"

definition hostcall :: "env \<Rightarrow> (host \<Rightarrow> 'a \<times> host) \<Rightarrow> 'a act" where
  \<comment> \<open>one call into the host: it is counted, and raises when the surroundings say so\<close>
  "hostcall E f h =
     (let h1 = h\<lparr>calls := Suc (calls h)\<rparr>
      in if fails E (calls h) then (Inl RuntimeError, h1)
         else (case f h1 of (v, h2) \<Rightarrow> (Inr v, h2)))"

fun find_name :: "string \<Rightarrow> string list \<Rightarrow> nat option" where
  "find_name n [] = None"
| "find_name n (m # ms) = (if m = n then Some 0 else map_option Suc (find_name n ms))"

definition objects_new :: "env \<Rightarrow> string \<Rightarrow> nat option \<Rightarrow> host \<Rightarrow> nat \<times> host" where
  "objects_new E n d h =
     (length (bpy_data_objects h),
      h\<lparr>bpy_data_objects := bpy_data_objects h @
           [\<lparr>ob_name = unique_name E (map ob_name (bpy_data_objects h)) n,
             ob_data = d, location = (0, 0, 0), parent = None\<rparr>]\<rparr>)"

definition objects_link :: "nat \<Rightarrow> host \<Rightarrow> unit \<times> host" where
  "objects_link ob h =
     ((), h\<lparr>bpy_context_collection_objects := bpy_context_collection_objects h @ [ob]\<rparr>)"

definition set_location :: "nat \<Rightarrow> int \<times> int \<times> int \<Rightarrow> host \<Rightarrow> unit \<times> host" where
  "set_location ob l h =
     ((), h\<lparr>bpy_data_objects :=
              (bpy_data_objects h)[ob := (bpy_data_objects h ! ob)\<lparr>location := l\<rparr>]\<rparr>)"

definition set_parent :: "nat \<Rightarrow> nat \<Rightarrow> host \<Rightarrow> unit \<times> host" where
  "set_parent ob p h =
     ((), h\<lparr>bpy_data_objects :=
              (bpy_data_objects h)[ob := (bpy_data_objects h ! ob)\<lparr>parent := Some p\<rparr>]\<rparr>)"

definition materials_get :: "string \<Rightarrow> host \<Rightarrow> nat option \<times> host" where
  "materials_get n h = (find_name n (map mat_name (bpy_data_materials h)), h)"

definition materials_new :: "env \<Rightarrow> string \<Rightarrow> host \<Rightarrow> nat \<times> host" where
  "materials_new E n h =
     (length (bpy_data_materials h),
      h\<lparr>bpy_data_materials := bpy_data_materials h @
           [\<lparr>mat_name = unique_name E (map mat_name (bpy_data_materials h)) n,
             diffuse_color = (4 / 5, 4 / 5, 4 / 5, 1), mat_use_nodes = False,
             nodes = [], links = []\<rparr>]\<rparr>)"

definition upd_material :: "nat \<Rightarrow> (material \<Rightarrow> material) \<Rightarrow> host \<Rightarrow> host" where
  "upd_material m f h =
     h\<lparr>bpy_data_materials := (bpy_data_materials h)[m := f (bpy_data_materials h ! m)]\<rparr>"

definition default_nodes :: "node list" where
  "default_nodes =
     [\<lparr>bl_idname = ''ShaderNodeBsdfPrincipled'', input_default = Map.empty\<rparr>,
      \<lparr>bl_idname = ''ShaderNodeOutputMaterial'', input_default = Map.empty\<rparr>]"

definition default_links :: "link list" where
  "default_links = [\<lparr>from_node = 0, from_socket = 0, to_node = 1, to_socket = 0\<rparr>]"

definition set_diffuse_color :: "nat \<Rightarrow> color \<Rightarrow> host \<Rightarrow> unit \<times> host" where
  "set_diffuse_color m c h = ((), upd_material m (\<lambda>x. x\<lparr>diffuse_color := c\<rparr>) h)"

definition set_use_nodes :: "nat \<Rightarrow> bool \<Rightarrow> host \<Rightarrow> unit \<times> host" where
  \<comment> \<open>switching nodes on gives the material the host's default tree\<close>
  "set_use_nodes m b h =
     ((), upd_material m
            (\<lambda>x. if b then x\<lparr>mat_use_nodes := True, nodes := default_nodes, links := default_links\<rparr>
                 else x\<lparr>mat_use_nodes := False\<rparr>) h)"

definition nodes_clear :: "nat \<Rightarrow> host \<Rightarrow> unit \<times> host" where
  "nodes_clear m h = ((), upd_material m (\<lambda>x. x\<lparr>nodes := [], links := []\<rparr>) h)"

definition nodes_new :: "nat \<Rightarrow> string \<Rightarrow> host \<Rightarrow> nat \<times> host" where
  "nodes_new m t h =
     (length (nodes (bpy_data_materials h ! m)),
      upd_material m
        (\<lambda>x. x\<lparr>nodes := nodes x @ [\<lparr>bl_idname = t, input_default = Map.empty\<rparr>]\<rparr>) h)"

definition set_default_value :: "nat \<Rightarrow> nat \<Rightarrow> nat \<Rightarrow> sockval \<Rightarrow> host \<Rightarrow> unit \<times> host" where
  "set_default_value m n i v h =
     ((), upd_material m
            (\<lambda>x. x\<lparr>nodes := (nodes x)[n := (nodes x ! n)\<lparr>input_default :=
                                    (input_default (nodes x ! n))(i \<mapsto> v)\<rparr>]\<rparr>) h)"

definition links_new :: "nat \<Rightarrow> nat \<times> nat \<Rightarrow> nat \<times> nat \<Rightarrow> host \<Rightarrow> unit \<times> host" where
  "links_new m src dst h =
     ((), upd_material m
            (\<lambda>x. x\<lparr>links := links x @
                      [\<lparr>from_node = fst src, from_socket = snd src,
                        to_node = fst dst, to_socket = snd dst\<rparr>]\<rparr>) h)"

definition upd_mesh :: "nat \<Rightarrow> (mesh \<Rightarrow> mesh) \<Rightarrow> host \<Rightarrow> host" where
  "upd_mesh k f h = h\<lparr>bpy_data_meshes := (bpy_data_meshes h)[k := f (bpy_data_meshes h ! k)]\<rparr>"

definition meshes_new :: "env \<Rightarrow> string \<Rightarrow> host \<Rightarrow> nat \<times> host" where
  "meshes_new E n h =
     (length (bpy_data_meshes h),
      h\<lparr>bpy_data_meshes := bpy_data_meshes h @
           [\<lparr>me_name = unique_name E (map me_name (bpy_data_meshes h)) n,
             me_verts = [], me_edges = [], me_faces = [], me_materials = []\<rparr>]\<rparr>)"

definition from_pydata ::
  "nat \<Rightarrow> (int \<times> int \<times> int) list \<Rightarrow> (nat \<times> nat) list \<Rightarrow> (nat \<times> nat \<times> nat \<times> nat) list \<Rightarrow>
   host \<Rightarrow> unit \<times> host" where
  "from_pydata k vs es fs h =
     ((), upd_mesh k (\<lambda>x. x\<lparr>me_verts := vs, me_edges := es, me_faces := fs\<rparr>) h)"

definition materials_append :: "nat \<Rightarrow> nat \<Rightarrow> host \<Rightarrow> unit \<times> host" where
  "materials_append k m h = ((), upd_mesh k (\<lambda>x. x\<lparr>me_materials := me_materials x @ [m]\<rparr>) h)"

definition mesh_update :: "nat \<Rightarrow> host \<Rightarrow> unit \<times> host" where
  "mesh_update k h = ((), h)"

section \<open>\<^verbatim>\<open>read_pixel_art\<close>\<close>

record settings =
  filepath :: string
  use_nodes :: bool
  reuse_materials :: bool
  material_name :: string
  cube_name :: string
  mesh_name :: string
  parent_name :: string

definition PARENT_NAME :: string where "PARENT_NAME = ''{filename}''"

definition MATERIAL_NAME :: string where "MATERIAL_NAME = ''pixel_art_{color}''"

definition CUBE_NAME :: string where "CUBE_NAME = ''{filename}_{x}_{y}''"

definition MESH_NAME :: string where "MESH_NAME = ''{filename}_{x}_{y}_mesh''"

definition cube_verts :: "(int \<times> int \<times> int) list" where
  "cube_verts =
     [(0, 0, 0), (1, 0, 0), (1, 1, 0), (0, 1, 0), (0, 0, 1), (1, 0, 1), (1, 1, 1), (0, 1, 1)]"

definition cube_edges :: "(nat \<times> nat) list" where
  "cube_edges = []"

definition cube_faces :: "(nat \<times> nat \<times> nat \<times> nat) list" where
  "cube_faces =
     [(0, 1, 2, 3), (0, 1, 5, 4), (1, 2, 6, 5), (4, 5, 6, 7), (2, 3, 7, 6), (0, 3, 7, 4)]"

definition posix_path_tail :: "string \<Rightarrow> string" where
  \<comment> \<open>the second component of \<^verbatim>\<open>posixpath.split\<close>: what follows the last slash\<close>
  "posix_path_tail p = rev (takeWhile (\<lambda>c. c \<noteq> CHR ''/'') (rev p))"

definition struse_nodes :: "settings \<Rightarrow> string" where
  "struse_nodes S = (if use_nodes S then ''nodes'' else [])"

definition parent_params :: "string \<Rightarrow> string \<Rightarrow> params" where
  \<comment> \<open>line 76\<close>
  "parent_params filename su = [(''filename'', PStr filename), (''use_nodes'', PStr su)]"

definition pixel_params :: "string \<Rightarrow> string \<Rightarrow> nat \<Rightarrow> nat \<Rightarrow> string \<Rightarrow> params" where
  \<comment> \<open>line 106\<close>
  "pixel_params filename sc x y su =
     [(''filename'', PStr filename), (''color'', PStr sc), (''x'', PInt (int x)),
      (''y'', PInt (int y)), (''use_nodes'', PStr su)]"

definition pixel_at :: "image \<Rightarrow> nat \<Rightarrow> pyexc + rat" where
  \<comment> \<open>\<^verbatim>\<open>pixels[i]\<close>, which raises beyond the end of the buffer\<close>
  "pixel_at img i = (if i < length (pixels img) then Inr (pixels img ! i) else Inl IndexError)"

definition read_pixel :: "image \<Rightarrow> rat \<Rightarrow> nat \<Rightarrow> nat \<Rightarrow> pyexc + color" where
  \<comment> \<open>lines 85 to 99: the samples of pixel \<open>(x, y)\<close>; \<open>a\<close> is the current value of the
      variable \<^verbatim>\<open>a\<close>, which only a pixel with an alpha sample assigns\<close>
  "read_pixel img a y x =
     (let offset = y * channels img * width img
      in if channels img = 1 then
           (case pixel_at img (offset + x) of
              Inl e \<Rightarrow> Inl e
            | Inr v \<Rightarrow> Inr (v, v, v, a))
         else
           (let index = offset + x * channels img
            in case pixel_at img index of
                 Inl e \<Rightarrow> Inl e
               | Inr r \<Rightarrow>
                   (case pixel_at img (index + 1) of
                      Inl e \<Rightarrow> Inl e
                    | Inr g \<Rightarrow>
                        (case pixel_at img (index + 2) of
                           Inl e \<Rightarrow> Inl e
                         | Inr b \<Rightarrow>
                             if channels img = 3 then Inr (r, g, b, a)
                             else (case pixel_at img (index + 3) of
                                     Inl e \<Rightarrow> Inl e
                                   | Inr a' \<Rightarrow> Inr (r, g, b, a'))))))"

definition has_alpha :: "image \<Rightarrow> bool" where
  \<comment> \<open>the \<^verbatim>\<open>else\<close> branch of lines 94 to 102\<close>
  "has_alpha img = (channels img \<noteq> 1 \<and> channels img \<noteq> 3)"

definition build_node_tree :: "env \<Rightarrow> nat \<Rightarrow> color \<Rightarrow> rat \<Rightarrow> unit act" where
  \<comment> \<open>lines 123 to 143\<close>
  "build_node_tree E m c a =
     bnd (hostcall E (nodes_clear m)) (\<lambda>_.
     bnd (hostcall E (nodes_new m ''ShaderNodeBsdfDiffuse'')) (\<lambda>diffuse_node.
     bnd (hostcall E (set_default_value m diffuse_node 0 (VColor c))) (\<lambda>_.
     bnd (hostcall E (nodes_new m ''ShaderNodeOutputMaterial'')) (\<lambda>output_node.
     if a < 1 then
       bnd (hostcall E (nodes_new m ''ShaderNodeMixShader'')) (\<lambda>mix_node.
       bnd (hostcall E (set_default_value m mix_node 0 (VFloat a))) (\<lambda>_.
       bnd (hostcall E (nodes_new m ''ShaderNodeBsdfTransparent'')) (\<lambda>transparent_node.
       bnd (hostcall E (set_default_value m transparent_node 0 (VColor c))) (\<lambda>_.
       bnd (hostcall E (links_new m (diffuse_node, 0) (mix_node, 1))) (\<lambda>_.
       bnd (hostcall E (links_new m (transparent_node, 0) (mix_node, 2))) (\<lambda>_.
       hostcall E (links_new m (mix_node, 0) (output_node, 0))))))))
     else hostcall E (links_new m (diffuse_node, 0) (output_node, 0))))))"

definition create_material :: "env \<Rightarrow> settings \<Rightarrow> color \<Rightarrow> rat \<Rightarrow> string \<Rightarrow> nat act" where
  \<comment> \<open>lines 118 to 143\<close>
  "create_material E S c a n =
     bnd (hostcall E (materials_new E n)) (\<lambda>m.
     bnd (hostcall E (set_diffuse_color m c)) (\<lambda>_.
     bnd (hostcall E (set_use_nodes m (use_nodes S))) (\<lambda>_.
     bnd (if use_nodes S then build_node_tree E m c a else ret ()) (\<lambda>_.
     ret m))))"

definition resolve_material ::
  "env \<Rightarrow> settings \<Rightarrow> (color \<rightharpoonup> nat) \<Rightarrow> color \<Rightarrow> rat \<Rightarrow> string \<Rightarrow>
   (nat \<times> (color \<rightharpoonup> nat)) act" where
  \<comment> \<open>lines 109 to 143: the material of a colour and the dictionary after it\<close>
  "resolve_material E S cache c a n =
     (case cache c of
        Some m \<Rightarrow> ret (m, cache)
      | None \<Rightarrow>
          bnd (if reuse_materials S then hostcall E (materials_get n) else ret None) (\<lambda>found.
          case found of
            Some m \<Rightarrow> ret (m, cache(c \<mapsto> m))
          | None \<Rightarrow> bnd (create_material E S c a n) (\<lambda>m. ret (m, cache(c \<mapsto> m)))))"

definition fmt :: "env \<Rightarrow> string \<Rightarrow> params \<Rightarrow> string act" where
  \<comment> \<open>a \<^verbatim>\<open>format\<close> call inside the function: its exception propagates\<close>
  "fmt E t p = (case format E t p of Inl e \<Rightarrow> raise (to_exc e) | Inr s \<Rightarrow> ret s)"

definition make_cube ::
  "env \<Rightarrow> settings \<Rightarrow> params \<Rightarrow> nat \<Rightarrow> nat \<Rightarrow> nat \<Rightarrow> nat \<Rightarrow> unit act" where
  \<comment> \<open>lines 145 to 155\<close>
  "make_cube E S p mat par x y =
     bnd (fmt E (mesh_name S) p) (\<lambda>cube_mesh_name.
     bnd (hostcall E (meshes_new E cube_mesh_name)) (\<lambda>me.
     bnd (hostcall E (from_pydata me cube_verts cube_edges cube_faces)) (\<lambda>_.
     bnd (hostcall E (materials_append me mat)) (\<lambda>_.
     bnd (hostcall E (mesh_update me)) (\<lambda>_.
     bnd (fmt E (cube_name S) p) (\<lambda>cube_object_name.
     bnd (hostcall E (objects_new E cube_object_name (Some me))) (\<lambda>ob.
     bnd (hostcall E (objects_link ob)) (\<lambda>_.
     bnd (hostcall E (set_location ob (int x, int y, 0))) (\<lambda>_.
     hostcall E (set_parent ob par))))))))))"

text \<open>
  The state of the pixel loop is the dictionary \<^verbatim>\<open>materials\<close> (colour to material)
  and the variable \<^verbatim>\<open>a\<close>.
\<close>

type_synonym loopstate = "(color \<rightharpoonup> nat) \<times> rat"

definition pixel_body ::
  "env \<Rightarrow> settings \<Rightarrow> image \<Rightarrow> string \<Rightarrow> nat \<Rightarrow> nat \<Rightarrow> loopstate \<Rightarrow> nat \<Rightarrow> loopstate act" where
  \<comment> \<open>lines 87 to 155, one turn of the inner loop\<close>
  "pixel_body E S img filename par y st x =
     (case read_pixel img (snd st) y x of
        Inl e \<Rightarrow> raise e
      | Inr c \<Rightarrow>
          (let a = snd (snd (snd c))
           in if has_alpha img \<and> a = 0 then ret (fst st, a)
              else
                (let p = pixel_params filename (strcolor c) x y (struse_nodes S)
                 in bnd (fmt E (material_name S) p) (\<lambda>n.
                    bnd (resolve_material E S (fst st) c a n) (\<lambda>r.
                    bnd (make_cube E S p (fst r) par x y) (\<lambda>_.
                    ret (snd r, a)))))))"

fun foldM :: "('s \<Rightarrow> 'a \<Rightarrow> 's act) \<Rightarrow> 'a list \<Rightarrow> 's \<Rightarrow> 's act" where
  "foldM f [] s = ret s"
| "foldM f (x # xs) s = bnd (f s x) (foldM f xs)"

definition pixel_loop ::
  "env \<Rightarrow> settings \<Rightarrow> image \<Rightarrow> string \<Rightarrow> nat \<Rightarrow> loopstate act" where
  \<comment> \<open>lines 80 to 155\<close>
  "pixel_loop E S img filename par =
     foldM (\<lambda>st y. foldM (pixel_body E S img filename par y) [0..<width img] st)
       [0..<height img] (Map.empty, 1)"

definition try_body :: "env \<Rightarrow> settings \<Rightarrow> image \<Rightarrow> string \<Rightarrow> unit act" where
  \<comment> \<open>lines 66 to 155, the body of the \<^verbatim>\<open>try\<close>\<close>
  "try_body E S img filename =
     (if channels img \<noteq> 1 \<and> channels img \<noteq> 3 \<and> channels img \<noteq> 4 then
        raise (IOError (''Cannot handle image with '' @ str_int (int (channels img)) @
                        '' channels!''))
      else
        bnd (fmt E (parent_name S) (parent_params filename (struse_nodes S))) (\<lambda>n.
        bnd (hostcall E (objects_new E n None)) (\<lambda>par.
        bnd (hostcall E (objects_link par)) (\<lambda>_.
        bnd (pixel_loop E S img filename par) (\<lambda>_.
        ret ())))))"

datatype status = FINISHED | CANCELLED

definition release :: "nat \<Rightarrow> host \<Rightarrow> host" where
  \<comment> \<open>lines 158 and 159: \<^verbatim>\<open>image.user_clear()\<close>, then
      \<^verbatim>\<open>bpy.data.images.remove(image)\<close>\<close>
  "release i h = h\<lparr>image_log := image_log h @ [UserClear i, ImageRemove i]\<rparr>"

definition read_pixel_art :: "env \<Rightarrow> settings \<Rightarrow> status act" where
  "read_pixel_art E S h =
     (case load_image E (filepath S) of
        Inl e \<Rightarrow> (Inl e, h)
      | Inr img \<Rightarrow>
          (let i = length (image_log h);
               h1 = h\<lparr>image_log := image_log h @ [ImageLoad i]\<rparr>;
               r = try_body E S img (os_path_tail E (filepath S)) h1;
               h3 = release i (snd r)
           in case fst r of
                Inl e \<Rightarrow> (Inl e, h3)
              | Inr _ \<Rightarrow> (Inr FINISHED, h3)))"

section \<open>\<^verbatim>\<open>ImportPixelArt.execute\<close>\<close>

definition pix_params :: params where
  \<comment> \<open>line 184\<close>
  "pix_params =
     [(''filename'', PStr []), (''color'', PStr ''AABBCCDD''), (''x'', PInt 0),
      (''y'', PInt 0), (''use_nodes'', PStr [])]"

definition validation_list :: "settings \<Rightarrow> (string \<times> string \<times> params) list" where
  \<comment> \<open>lines 185 to 190\<close>
  "validation_list S =
     [(''object name'', parent_name S, [(''filename'', PStr []), (''use_nodes'', PStr [])]),
      (''material names'', material_name S, pix_params),
      (''mesh names'', mesh_name S, pix_params),
      (''pixel names'', cube_name S, pix_params)]"

fun validate ::
  "env \<Rightarrow> (string \<times> string \<times> params) list \<Rightarrow> host \<Rightarrow> ((pyexc + status) \<times> host) option" where
  \<comment> \<open>lines 185 to 198: \<open>None\<close> when every template formats, otherwise how
      \<^verbatim>\<open>execute\<close> ends at the first one that does not\<close>
  "validate E [] h = None"
| "validate E ((n, v, p) # rest) h =
     (case format E v p of
        Inr _ \<Rightarrow> validate E rest h
      | Inl e \<Rightarrow>
          (case to_exc e of
             ValueError \<Rightarrow>
               Some (Inr CANCELLED, h\<lparr>reports := reports h @ [FormatError n ValueError]\<rparr>)
           | KeyError k \<Rightarrow>
               Some (Inr CANCELLED, h\<lparr>reports := reports h @ [IllegalKey n (KeyError k)]\<rparr>)
           | x \<Rightarrow> Some (Inl x, h)))"

definition execute :: "env \<Rightarrow> settings \<Rightarrow> status act" where
  "execute E S h =
     (case validate E (validation_list S) h of
        Some r \<Rightarrow> r
      | None \<Rightarrow> read_pixel_art E S h)"

section \<open>Concrete surroundings for worked examples\<close>

text \<open>
  A host that never fails and keeps a requested name when it is free (a numbered
  suffix otherwise), POSIX paths, and an interpreter in which only plain fields
  \<^verbatim>\<open>{name}\<close> format. The examples below use plain fields only.
\<close>

definition numbered :: "string \<Rightarrow> nat \<Rightarrow> string" where
  "numbered n k = n @ ''.'' @ (if k < 10 then ''00'' else if k < 100 then ''0'' else []) @ dec_nat k"

definition fresh_name :: "string list \<Rightarrow> string \<Rightarrow> string" where
  "fresh_name used n =
     (if n \<notin> set used then n
      else (case filter (\<lambda>k. numbered n k \<notin> set used) [1..<length used + 2] of
              [] \<Rightarrow> n
            | k # _ \<Rightarrow> numbered n k))"

definition sample_env :: "(string \<Rightarrow> pyexc + image) \<Rightarrow> env" where
  "sample_env disk =
     \<lparr>py_access = (\<lambda>v acc cv. Inl AttributeError),
      py_format = (\<lambda>ob sp. Inl ValueError),
      load_image = disk,
      fails = (\<lambda>n. False),
      unique_name = fresh_name,
      os_path_tail = posix_path_tail\<rparr>"

definition empty_host :: host where
  "empty_host =
     \<lparr>bpy_data_materials = [], bpy_data_meshes = [], bpy_data_objects = [],
      bpy_context_collection_objects = [], image_log = [], calls = 0, reports = []\<rparr>"

definition default_settings :: "string \<Rightarrow> settings" where
  \<comment> \<open>the defaults of lines 23 to 34 and 174 to 180\<close>
  "default_settings path =
     \<lparr>filepath = path, use_nodes = True, reuse_materials = False,
      material_name = MATERIAL_NAME, cube_name = CUBE_NAME, mesh_name = MESH_NAME,
      parent_name = PARENT_NAME\<rparr>"

definition one_file :: "string \<Rightarrow> image \<Rightarrow> string \<Rightarrow> pyexc + image" where
  "one_file path img p = (if p = path then Inr img else Inl RuntimeError)"

section \<open>Notions of the specification\<close>

definition upper_hex_digit :: "nat \<Rightarrow> char" where
  \<comment> \<open>the sixteen upper-case hexadecimal digits, written out\<close>
  "upper_hex_digit n =
     (if n = 0 then CHR ''0'' else if n = 1 then CHR ''1'' else if n = 2 then CHR ''2''
      else if n = 3 then CHR ''3'' else if n = 4 then CHR ''4'' else if n = 5 then CHR ''5''
      else if n = 6 then CHR ''6'' else if n = 7 then CHR ''7'' else if n = 8 then CHR ''8''
      else if n = 9 then CHR ''9'' else if n = 10 then CHR ''A'' else if n = 11 then CHR ''B''
      else if n = 12 then CHR ''C'' else if n = 13 then CHR ''D'' else if n = 14 then CHR ''E''
      else CHR ''F'')"

definition hex2 :: "int \<Rightarrow> string" where
  \<comment> \<open>the two upper-case hexadecimal digits of a number from 0 to 255\<close>
  "hex2 n = [upper_hex_digit (nat n div 16), upper_hex_digit (nat n mod 16)]"

definition is_upper_hex :: "char \<Rightarrow> bool" where
  "is_upper_hex c = (c \<in> set ''0123456789ABCDEF'')"

definition keeps_log :: "'a act \<Rightarrow> bool" where
  \<comment> \<open>a statement that leaves the image events as they are\<close>
  "keeps_log m = (\<forall>h. image_log (snd (m h)) = image_log h)"

definition red_pixel :: image where
  \<comment> \<open>a single opaque red pixel, three channels\<close>
  "red_pixel = \<lparr>channels = 3, width = 1, height = 1, pixels = [1, 0, 0]\<rparr>"

definition clear_pixel :: image where
  \<comment> \<open>a single fully transparent pixel, four channels\<close>
  "clear_pixel = \<lparr>channels = 4, width = 1, height = 1, pixels = [1, 0, 0, 0]\<rparr>"

definition two_channel :: image where
  \<comment> \<open>a grey-and-alpha image, which the add-on does not support\<close>
  "two_channel = \<lparr>channels = 2, width = 1, height = 1, pixels = [1, 1]\<rparr>"

text \<open>The nodes and links of a material built with \<open>use_nodes\<close> (claim C7).\<close>

definition diffuse_node :: "color \<Rightarrow> node" where
  "diffuse_node c = \<lparr>bl_idname = ''ShaderNodeBsdfDiffuse'', input_default = [0 \<mapsto> VColor c]\<rparr>"

definition output_node :: node where
  "output_node = \<lparr>bl_idname = ''ShaderNodeOutputMaterial'', input_default = Map.empty\<rparr>"

definition mix_node :: "rat \<Rightarrow> node" where
  "mix_node a = \<lparr>bl_idname = ''ShaderNodeMixShader'', input_default = [0 \<mapsto> VFloat a]\<rparr>"

definition transparent_node :: "color \<Rightarrow> node" where
  "transparent_node c = \<lparr>bl_idname = ''ShaderNodeBsdfTransparent'', input_default = [0 \<mapsto> VColor c]\<rparr>"










definition reuse_settings :: "string \<Rightarrow> settings" where
  "reuse_settings path = (default_settings path)\<lparr>reuse_materials := True\<rparr>"

definition stocked_host :: host where
  \<comment> \<open>a host that already has a material named like the one of opaque red\<close>
  "stocked_host =
     empty_host\<lparr>bpy_data_materials :=
       [\<lparr>mat_name = ''pixel_art_FF0000FF'', diffuse_color = (0, 0, 0, 1),
         mat_use_nodes = False, nodes = [], links = []\<rparr>]\<rparr>"





section \<open>The colour field\<close>

lemma hexdigit_mod: "hexdigit (n mod 16) = hexdigit n"
  by (simp add: hexdigit_def)

lemma hex_table: "k < 16 \<Longrightarrow> ''0123456789ABCDEF'' ! k = upper_hex_digit k"
proof -
  assume "k < 16"
  then consider "k = 0" | "k = 1" | "k = 2" | "k = 3" | "k = 4" | "k = 5" | "k = 6" | "k = 7"
    | "k = 8" | "k = 9" | "k = 10" | "k = 11" | "k = 12" | "k = 13" | "k = 14" | "k = 15"
    by atomize_elim arith
  then show ?thesis
    by cases (simp_all add: upper_hex_digit_def)
qed

lemma hexdigit_table: "hexdigit n = upper_hex_digit (n mod 16)"
  by (simp add: hexdigit_def hex_table)

lemma is_upper_hex_digit: "is_upper_hex (upper_hex_digit n)"
  by (simp add: is_upper_hex_def upper_hex_digit_def)

lemma hex_nat_small: "n < 16 \<Longrightarrow> hex_nat n = [hexdigit n]"
  by (simp add: hex_nat.simps)

lemma hex_nat_byte: "16 \<le> n \<Longrightarrow> n < 256 \<Longrightarrow> hex_nat n = [hexdigit (n div 16), hexdigit n]"
  by (subst hex_nat.simps) (simp add: hex_nat_small)

lemma fmt_02X_byte: "0 \<le> n \<Longrightarrow> n \<le> 255 \<Longrightarrow> fmt_02X n = hex2 n"
proof -
  assume a: "0 \<le> n" "n \<le> 255"
  show ?thesis
  proof (cases "nat n < 16")
    case True
    then show ?thesis using a
      by (simp add: fmt_02X_def hex2_def hex_nat_small hexdigit_table upper_hex_digit_def)
  next
    case False
    with a have "16 \<le> nat n" "nat n < 256" by auto
    then show ?thesis using a
      by (simp add: fmt_02X_def hex2_def hex_nat_byte hexdigit_table)
  qed
qed

lemma py_int_unit:
  "0 \<le> v \<Longrightarrow> v \<le> 1 \<Longrightarrow>
   py_int (v * 255) = \<lfloor>v * 255\<rfloor> \<and> 0 \<le> \<lfloor>v * 255\<rfloor> \<and> \<lfloor>v * 255\<rfloor> \<le> 255"
proof -
  assume a: "0 \<le> v" "v \<le> 1"
  have "0 \<le> v * 255" using a by simp
  moreover have "v * 255 \<le> 255" using a by simp
  then have "\<lfloor>v * 255\<rfloor> \<le> 255" by (simp add: floor_le_iff)
  ultimately show ?thesis by (simp add: py_int_def)
qed

lemma channel_hex: "0 \<le> v \<Longrightarrow> v \<le> 1 \<Longrightarrow> fmt_02X (py_int (v * 255)) = hex2 \<lfloor>v * 255\<rfloor>"
  using py_int_unit [of v] fmt_02X_byte [of "\<lfloor>v * 255\<rfloor>"] by simp

lemma strcolor_unit:
  assumes "0 \<le> r" "r \<le> 1" "0 \<le> g" "g \<le> 1" "0 \<le> b" "b \<le> 1" "0 \<le> a" "a \<le> 1"
  shows "strcolor (r, g, b, a) =
           hex2 \<lfloor>r * 255\<rfloor> @ hex2 \<lfloor>g * 255\<rfloor> @ hex2 \<lfloor>b * 255\<rfloor> @ hex2 \<lfloor>a * 255\<rfloor>"
  using assms by (simp add: strcolor_def channel_hex)

lemmas format_defs =
  format_def emit_def output_markup_def get_field_object_def is_name_end_def
  get_integer_def digit_value_def render_field_def py_str_def

lemma build_string_2:
  "build_string E p 2 s =
     render_pieces E p (build_string E p (Suc 0)) (fst (scan (Text []) s)) (snd (scan (Text []) s))"
  by (simp add: numeral_2_eq_2)

lemma format_color_field:
  "format E ''{color}'' (pixel_params fn sc x y su) = Inr sc"
  by (simp add: pixel_params_def format_defs build_string_2)

lemma format_PARENT_NAME:
  "format E PARENT_NAME (parent_params fn su) = Inr fn"
  by (simp add: PARENT_NAME_def parent_params_def format_defs build_string_2)

lemma format_MATERIAL_NAME:
  "format E MATERIAL_NAME (pixel_params fn sc x y su) = Inr (''pixel_art_'' @ sc)"
  by (simp add: MATERIAL_NAME_def pixel_params_def format_defs build_string_2)

lemma format_MESH_NAME:
  "format E MESH_NAME (pixel_params fn sc x y su) =
     Inr (fn @ ''_'' @ str_int (int x) @ ''_'' @ str_int (int y) @ ''_mesh'')"
  by (simp add: MESH_NAME_def pixel_params_def format_defs build_string_2)

lemma format_CUBE_NAME:
  "format E CUBE_NAME (pixel_params fn sc x y su) =
     Inr (fn @ ''_'' @ str_int (int x) @ ''_'' @ str_int (int y))"
  by (simp add: CUBE_NAME_def pixel_params_def format_defs build_string_2)

text \<open>
  Claim C8. The parameters of a pixel's three format calls are built at lines 105 and
  106 from the pixel colour \<open>(r, g, b, a)\<close>. When the four channels lie between 0
  and 1, the field \<^verbatim>\<open>{color}\<close> formats, with these parameters, to exactly eight
  upper-case hexadecimal digits in the order red, green, blue, alpha, the two digits
  of a channel \<open>v\<close> being those of \<open>\<lfloor>v * 255\<rfloor>\<close> (the digits are those of the
  written-out table \<open>upper_hex_digit\<close>). The default material name is
  \<^verbatim>\<open>pixel_art_\<close> followed by these digits.
\<close>

theorem color_field_hex:
  assumes "0 \<le> r" "r \<le> 1" "0 \<le> g" "g \<le> 1" "0 \<le> b" "b \<le> 1" "0 \<le> a" "a \<le> 1"
  shows "format E ''{color}'' (pixel_params filename (strcolor (r, g, b, a)) x y su) =
           Inr (hex2 \<lfloor>r * 255\<rfloor> @ hex2 \<lfloor>g * 255\<rfloor> @ hex2 \<lfloor>b * 255\<rfloor> @ hex2 \<lfloor>a * 255\<rfloor>)
       \<and> format E MATERIAL_NAME (pixel_params filename (strcolor (r, g, b, a)) x y su) =
           Inr (''pixel_art_'' @
                hex2 \<lfloor>r * 255\<rfloor> @ hex2 \<lfloor>g * 255\<rfloor> @ hex2 \<lfloor>b * 255\<rfloor> @ hex2 \<lfloor>a * 255\<rfloor>)
       \<and> length (hex2 \<lfloor>r * 255\<rfloor> @ hex2 \<lfloor>g * 255\<rfloor> @ hex2 \<lfloor>b * 255\<rfloor> @ hex2 \<lfloor>a * 255\<rfloor>) = 8
       \<and> list_all is_upper_hex
            (hex2 \<lfloor>r * 255\<rfloor> @ hex2 \<lfloor>g * 255\<rfloor> @ hex2 \<lfloor>b * 255\<rfloor> @ hex2 \<lfloor>a * 255\<rfloor>)"
  using strcolor_unit [OF assms]
  by (simp add: format_color_field format_MATERIAL_NAME hex2_def is_upper_hex_digit)

theorem color_field_hex_witness:
  "format (sample_env (one_file ''img.png'' red_pixel)) ''{color}''
      (pixel_params ''img.png'' (strcolor (1 / 255, 35 / 255, 69 / 255, 103 / 255)) 0 0 ''nodes'') =
     Inr ''01234567''
   \<and> format (sample_env (one_file ''img.png'' red_pixel)) ''{color}''
      (pixel_params ''img.png'' (strcolor (137 / 255, 171 / 255, 205 / 255, 239 / 255)) 0 0 ''nodes'') =
     Inr ''89ABCDEF''
   \<and> format (sample_env (one_file ''img.png'' red_pixel)) ''{color}''
      (pixel_params ''img.png'' (strcolor (1 / 2, 0, 1, 127 / 255)) 0 0 ''nodes'') =
     Inr ''7F00FF7F''"
proof -
  have f: "\<lfloor>255 / 2 :: rat\<rfloor> = 127"
    by (rule floor_unique) simp_all
  show ?thesis
    using color_field_hex [of "1 / 255" "35 / 255" "69 / 255" "103 / 255"
        "sample_env (one_file ''img.png'' red_pixel)" "''img.png''" 0 0 "''nodes''"]
      color_field_hex [of "137 / 255" "171 / 255" "205 / 255" "239 / 255"
        "sample_env (one_file ''img.png'' red_pixel)" "''img.png''" 0 0 "''nodes''"]
      color_field_hex [of "1 / 2" 0 1 "127 / 255"
        "sample_env (one_file ''img.png'' red_pixel)" "''img.png''" 0 0 "''nodes''"]
    by (simp add: hex2_def upper_hex_digit_def f)
qed

section \<open>Releasing the image\<close>

lemma keeps_log_ret: "keeps_log (ret v)"
  by (simp add: keeps_log_def ret_def)

lemma keeps_log_raise: "keeps_log (raise e)"
  by (simp add: keeps_log_def raise_def)

lemma keeps_log_bnd: "keeps_log m \<Longrightarrow> (\<And>v. keeps_log (f v)) \<Longrightarrow> keeps_log (bnd m f)"
  unfolding keeps_log_def bnd_def
proof
  fix h
  assume m: "\<forall>h. image_log (snd (m h)) = image_log h"
    and f: "\<And>v. \<forall>h. image_log (snd (f v h)) = image_log h"
  obtain r h1 where mh: "m h = (r, h1)" by (cases "m h")
  from m mh have l1: "image_log h1 = image_log h" by (metis snd_conv)
  show "image_log (snd (case m h of (Inl e, h') \<Rightarrow> (Inl e, h') | (Inr v, h') \<Rightarrow> f v h')) = image_log h"
  proof (cases r)
    case (Inl e)
    with mh l1 show ?thesis by simp
  next
    case (Inr v)
    with mh l1 f [of v] show ?thesis by simp
  qed
qed

lemma keeps_log_hostcall:
  assumes "\<And>h. image_log (snd (f h)) = image_log h"
  shows "keeps_log (hostcall E f)"
  unfolding keeps_log_def
proof
  fix h :: host
  let ?h1 = "h\<lparr>calls := Suc (calls h)\<rparr>"
  obtain v h2 where fh: "f ?h1 = (v, h2)" by (cases "f ?h1")
  from assms [of ?h1] fh have "image_log h2 = image_log h" by simp
  with fh show "image_log (snd (hostcall E f h)) = image_log h"
    by (simp add: hostcall_def Let_def)
qed

lemma keeps_log_foldM: "(\<And>s x. keeps_log (f s x)) \<Longrightarrow> keeps_log (foldM f xs s)"
  by (induction xs arbitrary: s) (simp_all add: keeps_log_ret keeps_log_bnd)

lemma keeps_log_fmt: "keeps_log (fmt E t p)"
  by (simp add: fmt_def keeps_log_ret keeps_log_raise split: sum.splits)

lemmas host_effect_defs =
  objects_new_def objects_link_def set_location_def set_parent_def materials_get_def
  materials_new_def upd_material_def set_diffuse_color_def set_use_nodes_def nodes_clear_def
  nodes_new_def set_default_value_def links_new_def upd_mesh_def meshes_new_def
  from_pydata_def materials_append_def mesh_update_def

lemma keeps_log_build_node_tree: "keeps_log (build_node_tree E m c a)"
  unfolding build_node_tree_def
  by (intro keeps_log_bnd keeps_log_hostcall keeps_log_ret if_split [where P = keeps_log, THEN iffD2] conjI impI)
     (simp_all add: host_effect_defs)


lemma keeps_log_if: "(c \<Longrightarrow> keeps_log m) \<Longrightarrow> (\<not> c \<Longrightarrow> keeps_log n) \<Longrightarrow> keeps_log (if c then m else n)"
  by simp

lemma keeps_log_create_material: "keeps_log (create_material E S c a n)"
  unfolding create_material_def
  by (intro keeps_log_bnd keeps_log_hostcall keeps_log_ret keeps_log_if keeps_log_build_node_tree)
     (simp_all add: host_effect_defs)

lemma keeps_log_resolve_material: "keeps_log (resolve_material E S cache c a n)"
proof (cases "cache c")
  case (Some m)
  then show ?thesis by (simp add: resolve_material_def keeps_log_ret)
next
  case None
  have "keeps_log (case found of Some m \<Rightarrow> ret (m, cache(c \<mapsto> m))
          | None \<Rightarrow> bnd (create_material E S c a n) (\<lambda>m. ret (m, cache(c \<mapsto> m))))" for found
    by (cases found) (simp_all add: keeps_log_ret keeps_log_bnd keeps_log_create_material)
  moreover have "keeps_log (if reuse_materials S then hostcall E (materials_get n) else ret None)"
    by (intro keeps_log_if keeps_log_hostcall keeps_log_ret) (simp add: host_effect_defs)
  ultimately show ?thesis using None
    by (simp add: resolve_material_def keeps_log_bnd)
qed

lemma keeps_log_make_cube: "keeps_log (make_cube E S p mat par x y)"
  unfolding make_cube_def
  by (intro keeps_log_bnd keeps_log_hostcall keeps_log_ret keeps_log_fmt)
     (simp_all add: host_effect_defs)

lemma keeps_log_pixel_body: "keeps_log (pixel_body E S img fn par y st x)"
proof (cases "read_pixel img (snd st) y x")
  case (Inl e)
  then show ?thesis by (simp add: pixel_body_def keeps_log_raise)
next
  case (Inr c)
  then show ?thesis
    by (simp add: pixel_body_def Let_def keeps_log_ret keeps_log_bnd keeps_log_fmt
        keeps_log_resolve_material keeps_log_make_cube)
qed

lemma keeps_log_pixel_loop: "keeps_log (pixel_loop E S img fn par)"
  unfolding pixel_loop_def
  by (intro keeps_log_foldM keeps_log_pixel_body)

lemma keeps_log_try_body: "keeps_log (try_body E S img fn)"
  unfolding try_body_def
  by (intro keeps_log_if keeps_log_bnd keeps_log_hostcall keeps_log_ret keeps_log_raise
      keeps_log_fmt keeps_log_pixel_loop)
     (simp_all add: host_effect_defs)

text \<open>
  Claim C2. Once \<^verbatim>\<open>bpy.data.images.load\<close> has returned an image, the run
  dereferences it and then removes it from the host's images exactly once, whatever
  the body of the \<^verbatim>\<open>try\<close> does: finish, raise at the channel check, or raise
  anywhere in the pixel loop (a failing format call, a read beyond the pixel buffer,
  or any call into the host that raises). The image events of the run are exactly
  load, \<^verbatim>\<open>user_clear\<close>, \<^verbatim>\<open>remove\<close>, in this order.
\<close>

theorem image_released_once:
  assumes "load_image E (filepath S) = Inr img"
  shows "image_log (snd (read_pixel_art E S h)) =
           image_log h @ [ImageLoad (length (image_log h)), UserClear (length (image_log h)),
                          ImageRemove (length (image_log h))]"
proof -
  let ?h1 = "h\<lparr>image_log := image_log h @ [ImageLoad (length (image_log h))]\<rparr>"
  have "image_log (snd (try_body E S img (os_path_tail E (filepath S)) ?h1)) = image_log ?h1"
    using keeps_log_try_body [of E S img "os_path_tail E (filepath S)"]
    unfolding keeps_log_def by blast
  then show ?thesis using assms
    by (simp add: read_pixel_art_def Let_def release_def split: sum.splits)
qed

theorem image_released_once_witness:
  "image_log (snd (read_pixel_art (sample_env (one_file ''img.png'' red_pixel))
                     (default_settings ''img.png'') empty_host)) =
     [ImageLoad 0, UserClear 0, ImageRemove 0]"
  using image_released_once [of "sample_env (one_file ''img.png'' red_pixel)"
      "default_settings ''img.png''" red_pixel empty_host]
  by (simp add: sample_env_def one_file_def default_settings_def empty_host_def)

section \<open>Unsupported channel counts\<close>

text \<open>
  Claim C5. When the decoded image has a channel count other than 1, 3 or 4, the run
  raises the \<^verbatim>\<open>IOError\<close> of line 74; the host's materials, meshes, objects and
  collection are as before (not even the parent object is created, and no call into
  the host is made), and the image is released.
\<close>

theorem unsupported_channels:
  assumes "load_image E (filepath S) = Inr img"
    and "channels img \<noteq> 1" "channels img \<noteq> 3" "channels img \<noteq> 4"
  shows "read_pixel_art E S h =
           (Inl (IOError (''Cannot handle image with '' @ str_int (int (channels img)) @
                          '' channels!'')),
            h\<lparr>image_log := image_log h @
                 [ImageLoad (length (image_log h)), UserClear (length (image_log h)),
                  ImageRemove (length (image_log h))]\<rparr>)"
  using assms
  by (simp add: read_pixel_art_def try_body_def raise_def release_def Let_def)

theorem unsupported_channels_witness:
  "read_pixel_art (sample_env (one_file ''img.png'' two_channel))
      (default_settings ''img.png'') empty_host =
     (Inl (IOError ''Cannot handle image with 2 channels!''),
      empty_host\<lparr>image_log := [ImageLoad 0, UserClear 0, ImageRemove 0]\<rparr>)"
  using unsupported_channels [of "sample_env (one_file ''img.png'' two_channel)"
      "default_settings ''img.png''" two_channel empty_host]
  by (simp add: sample_env_def one_file_def default_settings_def empty_host_def two_channel_def
      str_int_def dec_nat.simps decdigit_def)

section \<open>Fully transparent pixels\<close>

text \<open>
  Claim C4. In a four-channel image, the turn of the loop for a pixel whose alpha
  sample is exactly 0 leaves the host and the dictionary of materials as they are:
  no mesh, no object, no material, no lookup of a material by name, no call into
  the host at all (the call counter stands still). Only the variable \<^verbatim>\<open>a\<close>
  changes, to 0. Another pixel of the same colour values with a non-zero alpha is a
  different turn of the loop and gets its material there.
\<close>

theorem transparent_pixel_skipped:
  assumes "channels img = 4"
    and "y * 4 * width img + x * 4 + 3 < length (pixels img)"
    and "pixels img ! (y * 4 * width img + x * 4 + 3) = 0"
  shows "pixel_body E S img filename par y (cache, a) x h = (Inr (cache, 0), h)"
  using assms
  by (simp add: pixel_body_def read_pixel_def pixel_at_def has_alpha_def ret_def Let_def)

theorem transparent_pixel_skipped_witness:
  "pixel_body (sample_env (one_file ''img.png'' clear_pixel)) (default_settings ''img.png'')
      clear_pixel ''img.png'' 0 0 (Map.empty, 1) 0 empty_host =
     (Inr (Map.empty, 0), empty_host)"
  using transparent_pixel_skipped [of clear_pixel 0 0
      "sample_env (one_file ''img.png'' clear_pixel)" "default_settings ''img.png''"
      "''img.png''" 0 Map.empty 1 empty_host]
  by (simp add: clear_pixel_def)

section \<open>Statements that return\<close>

lemma bnd_ret: "bnd (ret v) f = f v"
  by (rule ext) (simp add: bnd_def ret_def)

lemma bnd_raise: "bnd (raise e) f = raise e"
  by (rule ext) (simp add: bnd_def raise_def)

lemma bnd_if: "bnd (if c then m else n) f = (if c then bnd m f else bnd n f)"
  by simp

lemma bnd_Inr_iff:
  "bnd m f h = (Inr v, h') \<longleftrightarrow> (\<exists>u h1. m h = (Inr u, h1) \<and> f u h1 = (Inr v, h'))"
  by (cases "m h") (auto simp: bnd_def split: sum.splits)

lemma hostcall_Inr_iff:
  "hostcall E f h = (Inr v, h') \<longleftrightarrow>
     \<not> fails E (calls h) \<and> f (h\<lparr>calls := Suc (calls h)\<rparr>) = (v, h')"
  by (cases "f (h\<lparr>calls := Suc (calls h)\<rparr>)") (auto simp: hostcall_def Let_def)

lemma bnd_hostcall_Inr_iff:
  "bnd (hostcall E f) g h = (Inr v, h') \<longleftrightarrow>
     \<not> fails E (calls h) \<and>
     g (fst (f (h\<lparr>calls := Suc (calls h)\<rparr>))) (snd (f (h\<lparr>calls := Suc (calls h)\<rparr>))) = (Inr v, h')"
  by (cases "f (h\<lparr>calls := Suc (calls h)\<rparr>)") (auto simp: bnd_Inr_iff hostcall_Inr_iff)

lemma bnd_assoc: "bnd (bnd m f) g = bnd m (\<lambda>x. bnd (f x) g)"
  by (rule ext) (simp add: bnd_def split: prod.splits sum.splits)

lemma ret_Inr_iff: "ret u h = (Inr v, h') \<longleftrightarrow> u = v \<and> h = h'"
  by (auto simp: ret_def)

lemma bnd_hostcall_ok:
  "\<not> fails E (calls h) \<Longrightarrow>
   bnd (hostcall E f) g h =
     g (fst (f (h\<lparr>calls := Suc (calls h)\<rparr>))) (snd (f (h\<lparr>calls := Suc (calls h)\<rparr>)))"
  by (simp add: bnd_def hostcall_def Let_def split: prod.splits)

lemma hostcall_ok:
  "\<not> fails E (calls h) \<Longrightarrow>
   hostcall E f h =
     (Inr (fst (f (h\<lparr>calls := Suc (calls h)\<rparr>))), snd (f (h\<lparr>calls := Suc (calls h)\<rparr>)))"
  by (simp add: hostcall_def Let_def split: prod.splits)

lemma sample_env_simps:
  "fails (sample_env d) n = False"
  "load_image (sample_env d) = d"
  "unique_name (sample_env d) = fresh_name"
  "os_path_tail (sample_env d) = posix_path_tail"
  by (simp_all add: sample_env_def)

section \<open>The node tree of a new material\<close>



section \<open>What a turn of the pixel loop does to the host\<close>

lemma create_material_Inr:
  assumes "create_material E S c a n h = (Inr m, h')"
  shows "m = length (bpy_data_materials h)
       \<and> (\<exists>k mt. h' = h\<lparr>calls := k, bpy_data_materials := bpy_data_materials h @ [mt]\<rparr>)"
proof (cases "use_nodes S")
  case False
  with assms show ?thesis
    unfolding create_material_def
    by (auto simp: bnd_assoc bnd_hostcall_Inr_iff hostcall_Inr_iff ret_Inr_iff bnd_ret host_effect_defs)
next
  case True
  show ?thesis
  proof (cases "a < 1")
    case True
    with assms \<open>use_nodes S\<close> show ?thesis
      unfolding create_material_def build_node_tree_def
      by (auto simp: bnd_assoc bnd_hostcall_Inr_iff hostcall_Inr_iff ret_Inr_iff host_effect_defs)
  next
    case False
    with assms \<open>use_nodes S\<close> show ?thesis
      unfolding create_material_def build_node_tree_def
      by (auto simp: bnd_assoc bnd_hostcall_Inr_iff hostcall_Inr_iff ret_Inr_iff host_effect_defs)
  qed
qed

lemma fmt_Inr_iff: "fmt E t p h = (Inr s, h') \<longleftrightarrow> format E t p = Inr s \<and> h' = h"
  by (auto simp: fmt_def ret_def raise_def split: sum.splits)

lemma bnd_fmt_Inr_iff:
  "bnd (fmt E t p) g h = (Inr v, h') \<longleftrightarrow> (\<exists>s. format E t p = Inr s \<and> g s h = (Inr v, h'))"
  by (auto simp: bnd_Inr_iff fmt_Inr_iff)

lemma make_cube_Inr:
  assumes "make_cube E S p mat par x y h = (Inr u, h')"
  shows "bpy_data_materials h' = bpy_data_materials h
       \<and> (\<exists>mn. bpy_data_meshes h' = bpy_data_meshes h @
             [\<lparr>me_name = mn, me_verts = cube_verts, me_edges = cube_edges,
               me_faces = cube_faces, me_materials = [mat]\<rparr>])
       \<and> (\<exists>on. bpy_data_objects h' = bpy_data_objects h @
             [\<lparr>ob_name = on, ob_data = Some (length (bpy_data_meshes h)),
               location = (int x, int y, 0), parent = Some par\<rparr>])
       \<and> bpy_context_collection_objects h' =
             bpy_context_collection_objects h @ [length (bpy_data_objects h)]
       \<and> reports h' = reports h"
  using assms unfolding make_cube_def
  by (auto simp: bnd_fmt_Inr_iff bnd_hostcall_Inr_iff hostcall_Inr_iff host_effect_defs)

lemma create_material_Inr_fields:
  assumes "create_material E S c a n h = (Inr m, h')"
  shows "m = length (bpy_data_materials h)
       \<and> (\<exists>mt. bpy_data_materials h' = bpy_data_materials h @ [mt])
       \<and> bpy_data_meshes h' = bpy_data_meshes h
       \<and> bpy_data_objects h' = bpy_data_objects h
       \<and> bpy_context_collection_objects h' = bpy_context_collection_objects h
       \<and> reports h' = reports h"
  using create_material_Inr [OF assms] by auto

lemma resolve_material_Inr:
  assumes "resolve_material E S cache c a n h = (Inr r, h')"
  shows "bpy_data_meshes h' = bpy_data_meshes h
       \<and> bpy_data_objects h' = bpy_data_objects h
       \<and> bpy_context_collection_objects h' = bpy_context_collection_objects h
       \<and> reports h' = reports h
       \<and> snd r = cache(c \<mapsto> fst r)
       \<and> (case cache c of
            Some m \<Rightarrow> fst r = m \<and> bpy_data_materials h' = bpy_data_materials h
          | None \<Rightarrow>
              (case (if reuse_materials S
                     then find_name n (map mat_name (bpy_data_materials h)) else None) of
                 Some m \<Rightarrow> fst r = m \<and> bpy_data_materials h' = bpy_data_materials h
               | None \<Rightarrow> fst r = length (bpy_data_materials h)
                         \<and> (\<exists>mt. bpy_data_materials h' = bpy_data_materials h @ [mt])))"
proof (cases "cache c")
  case (Some m)
  with assms show ?thesis
    by (auto simp: resolve_material_def ret_Inr_iff)
next
  case None
  show ?thesis
  proof (cases "reuse_materials S")
    case True
    show ?thesis
    proof (cases "find_name n (map mat_name (bpy_data_materials h))")
      case (Some m)
      with assms None True show ?thesis
        by (auto simp: resolve_material_def bnd_hostcall_Inr_iff ret_Inr_iff materials_get_def)
    next
      case N2: None
      with assms None True obtain m where
        cm: "create_material E S c a n (h\<lparr>calls := Suc (calls h)\<rparr>) = (Inr m, h')"
        and r: "r = (m, cache(c \<mapsto> m))"
        by (auto simp: resolve_material_def hostcall_Inr_iff bnd_Inr_iff ret_Inr_iff materials_get_def)
      from create_material_Inr_fields [OF cm] r None True N2 show ?thesis
        by auto
    qed
  next
    case False
    with assms None obtain m where
      cm: "create_material E S c a n h = (Inr m, h')"
      and r: "r = (m, cache(c \<mapsto> m))"
      by (auto simp: resolve_material_def bnd_ret bnd_Inr_iff ret_Inr_iff)
    from create_material_Inr_fields [OF cm] r None False show ?thesis
      by auto
  qed
qed



lemma find_name_less: "find_name n ns = Some m \<Longrightarrow> m < length ns"
  by (induction ns arbitrary: m) (auto split: if_splits)

lemma find_name_nth: "find_name n ns = Some m \<Longrightarrow> ns ! m = n"
  by (induction ns arbitrary: m) (auto split: if_splits)

text \<open>What a turn that returns has done.\<close>

lemma pixel_body_Inr:
  assumes "pixel_body E S img fn par y st x h = (Inr st', h')"
  obtains c where "read_pixel img (snd st) y x = Inr c" "snd st' = snd (snd (snd c))"
    "has_alpha img \<and> snd (snd (snd c)) = 0 \<Longrightarrow> fst st' = fst st \<and> h' = h"
    "\<not> (has_alpha img \<and> snd (snd (snd c)) = 0) \<Longrightarrow>
       \<exists>n r h1 u. format E (material_name S) (pixel_params fn (strcolor c) x y (struse_nodes S)) = Inr n
         \<and> resolve_material E S (fst st) c (snd (snd (snd c))) n h = (Inr r, h1)
         \<and> make_cube E S (pixel_params fn (strcolor c) x y (struse_nodes S)) (fst r) par x y h1 = (Inr u, h')
         \<and> fst st' = snd r"
proof (cases "read_pixel img (snd st) y x")
  case (Inl e)
  with assms show ?thesis by (simp add: pixel_body_def raise_def)
next
  case (Inr c)
  show ?thesis
  proof (rule that [of c])
    show "read_pixel img (snd st) y x = Inr c" by (rule Inr)
    show "snd st' = snd (snd (snd c))"
      using assms Inr
      by (auto simp: pixel_body_def Let_def ret_Inr_iff fmt_Inr_iff bnd_Inr_iff split: if_splits)
    show "fst st' = fst st \<and> h' = h" if "has_alpha img \<and> snd (snd (snd c)) = 0"
      using assms Inr that by (auto simp: pixel_body_def Let_def ret_Inr_iff)
    show "\<exists>n r h1 u. format E (material_name S) (pixel_params fn (strcolor c) x y (struse_nodes S)) = Inr n
         \<and> resolve_material E S (fst st) c (snd (snd (snd c))) n h = (Inr r, h1)
         \<and> make_cube E S (pixel_params fn (strcolor c) x y (struse_nodes S)) (fst r) par x y h1 = (Inr u, h')
         \<and> fst st' = snd r" if "\<not> (has_alpha img \<and> snd (snd (snd c)) = 0)"
      using assms Inr that
      by (auto simp: pixel_body_def Let_def ret_Inr_iff fmt_Inr_iff bnd_Inr_iff)
  qed
qed

section \<open>The invariant of the pixel loop\<close>















section \<open>Cubes and materials of a finished run\<close>





section \<open>Worked runs\<close>

lemmas run_defs =
  read_pixel_art_def try_body_def pixel_loop_def pixel_body_def resolve_material_def
  create_material_def build_node_tree_def make_cube_def fmt_def release_def
  read_pixel_def pixel_at_def has_alpha_def posix_path_tail_def struse_nodes_def

lemma fresh_name_free: "n \<notin> set used \<Longrightarrow> fresh_name used n = n"
  by (simp add: fresh_name_def)

lemma upt_0_1: "[0..<1] = [0]"
  by simp

lemma upt_0_2: "[0..<2] = [0, 1]"
  by (simp add: upt_rec)

lemmas eval_simps =
  bnd_hostcall_ok hostcall_ok bnd_ret bnd_raise bnd_assoc sample_env_simps host_effect_defs
  format_PARENT_NAME format_MATERIAL_NAME format_MESH_NAME format_CUBE_NAME
  one_file_def default_settings_def reuse_settings_def empty_host_def stocked_host_def Let_def
  bnd_def ret_def fresh_name_free upt_0_1 upt_0_2


lemma strcolor_red: "strcolor (1, 0, 0, 1) = ''FF0000FF''"
  using strcolor_unit [of 1 0 0 1] by (simp add: hex2_def upper_hex_digit_def)














section \<open>Validation and the keys of the templates\<close>









lemma validation_params:
  "pix_params = pixel_params [] ''AABBCCDD'' 0 0 []"
  "[(''filename'', PStr []), (''use_nodes'', PStr [])] = parent_params [] []"
  by (simp_all add: pix_params_def pixel_params_def parent_params_def)



lemma validate_frame:
  "validate E vs h = Some r \<Longrightarrow>
   bpy_data_materials (snd r) = bpy_data_materials h
   \<and> bpy_data_meshes (snd r) = bpy_data_meshes h
   \<and> bpy_data_objects (snd r) = bpy_data_objects h
   \<and> bpy_context_collection_objects (snd r) = bpy_context_collection_objects h
   \<and> image_log (snd r) = image_log h
   \<and> calls (snd r) = calls h"
  by (induction vs) (auto split: sum.splits pyexc.splits)

lemma execute_cancelled_frame:
  "validate E (validation_list S) h \<noteq> None \<Longrightarrow>
   bpy_data_materials (snd (execute E S h)) = bpy_data_materials h
   \<and> bpy_data_meshes (snd (execute E S h)) = bpy_data_meshes h
   \<and> bpy_data_objects (snd (execute E S h)) = bpy_data_objects h
   \<and> bpy_context_collection_objects (snd (execute E S h)) = bpy_context_collection_objects h
   \<and> image_log (snd (execute E S h)) = image_log h
   \<and> calls (snd (execute E S h)) = calls h"
  using validate_frame [of E "validation_list S" h]
  by (auto simp: execute_def)

lemma format_positional_then_unknown:
  "format E ''{0}{bogus}'' p = Inl Positional"
  by (simp add: format_defs build_string_2 ssize_max_def)

lemma format_unknown: "format E ''{bogus}'' pix_params = Inl (MissingKey ''bogus'')"
  by (simp add: format_defs build_string_2 pix_params_def)

text \<open>
  Claim C6 does not hold of the code: \<^verbatim>\<open>execute\<close> catches \<^verbatim>\<open>ValueError\<close> and
  \<^verbatim>\<open>KeyError\<close> only. A template that references the unknown field
  \<^verbatim>\<open>{bogus}\<close> after a positional field \<^verbatim>\<open>{0}\<close> fails validation with
  \<^verbatim>\<open>IndexError\<close> (no positional argument is passed), which is not caught: the
  operator raises, reports nothing and does not return \<^verbatim>\<open>CANCELLED\<close>. It still
  ends before the image is loaded and leaves the host as it was.
\<close>

theorem positional_field_not_reported:
  "execute E (S\<lparr>parent_name := ''{0}{bogus}''\<rparr>) h = (Inl IndexError, h)"
  by (simp add: execute_def validation_list_def format_positional_then_unknown to_exc_def)

lemma unknown_field_reported:
  "execute E (S\<lparr>parent_name := PARENT_NAME, material_name := ''{bogus}''\<rparr>) h =
     (Inr CANCELLED, h\<lparr>reports := reports h @ [IllegalKey ''material names'' (KeyError ''bogus'')]\<rparr>)"
  by (simp add: execute_def validation_list_def validation_params(2) format_PARENT_NAME
      format_unknown to_exc_def)

section \<open>Reusing a material of the host\<close>

text \<open>
  Claim C9. With \<open>reuse_materials\<close> on, when the turn of the loop for a pixel
  meets a colour that is not yet in the dictionary of materials and the host has a
  material under the computed name, a turn that returns leaves the host's materials
  exactly as they were (none is created and no property of any is changed); the
  material found is entered in the dictionary for the colour and is the one
  material of the pixel's mesh.
\<close>

theorem existing_material_reused:
  assumes reuse: "reuse_materials S"
    and first: "fst st c = None"
    and rp: "read_pixel img (snd st) y x = Inr c"
    and vis: "\<not> (has_alpha img \<and> snd (snd (snd c)) = 0)"
    and name: "format E (material_name S) (pixel_params filename (strcolor c) x y (struse_nodes S)) = Inr n"
    and found: "find_name n (map mat_name (bpy_data_materials h)) = Some m"
    and step: "pixel_body E S img filename par y st x h = (Inr st', h')"
  shows "bpy_data_materials h' = bpy_data_materials h
       \<and> mat_name (bpy_data_materials h ! m) = n
       \<and> fst st' = (fst st)(c \<mapsto> m)
       \<and> (\<exists>mn. bpy_data_meshes h' = bpy_data_meshes h @
             [\<lparr>me_name = mn, me_verts = cube_verts, me_edges = cube_edges,
               me_faces = cube_faces, me_materials = [m]\<rparr>])"
proof -
  from step obtain c' where rp': "read_pixel img (snd st) y x = Inr c'"
    and a': "snd st' = snd (snd (snd c'))"
    and skip: "has_alpha img \<and> snd (snd (snd c')) = 0 \<Longrightarrow> fst st' = fst st \<and> h' = h"
    and draw: "\<not> (has_alpha img \<and> snd (snd (snd c')) = 0) \<Longrightarrow>
       \<exists>n r h1 u. format E (material_name S) (pixel_params filename (strcolor c') x y (struse_nodes S)) = Inr n
         \<and> resolve_material E S (fst st) c' (snd (snd (snd c'))) n h = (Inr r, h1)
         \<and> make_cube E S (pixel_params filename (strcolor c') x y (struse_nodes S)) (fst r) par x y h1 = (Inr u, h')
         \<and> fst st' = snd r"
    by (rule pixel_body_Inr) (rule that)
  from rp rp' have cc: "c' = c" by simp
  from draw [unfolded cc, OF vis] name obtain r h1 u where
    rm: "resolve_material E S (fst st) c (snd (snd (snd c))) n h = (Inr r, h1)"
    and mc: "make_cube E S (pixel_params filename (strcolor c) x y (struse_nodes S)) (fst r) par x y h1 = (Inr u, h')"
    and fs: "fst st' = snd r"
    by auto
  note R = resolve_material_Inr [OF rm]
  note M = make_cube_Inr [OF mc]
  from R first reuse found have r: "fst r = m" "bpy_data_materials h1 = bpy_data_materials h"
    "snd r = (fst st)(c \<mapsto> m)" "bpy_data_meshes h1 = bpy_data_meshes h"
    by auto
  from find_name_less [OF found] find_name_nth [OF found]
  have nm: "mat_name (bpy_data_materials h ! m) = n" by simp
  from M r fs nm show ?thesis by auto
qed

lemma red_reuse_turn:
  "fst (pixel_body (sample_env (one_file ''img.png'' red_pixel)) (reuse_settings ''img.png'')
         red_pixel ''img.png'' 0 0 (Map.empty, 1) 0 stocked_host) = Inr ([(1, 0, 0, 1) \<mapsto> 0], 1)"
  by (simp add: run_defs eval_simps red_pixel_def strcolor_red)

theorem existing_material_reused_witness:
  "bpy_data_materials (snd (pixel_body (sample_env (one_file ''img.png'' red_pixel))
       (reuse_settings ''img.png'') red_pixel ''img.png'' 0 0 (Map.empty, 1) 0 stocked_host)) =
     bpy_data_materials stocked_host
   \<and> mat_name (bpy_data_materials stocked_host ! 0) = ''pixel_art_FF0000FF''"
proof -
  let ?E = "sample_env (one_file ''img.png'' red_pixel)"
  let ?S = "reuse_settings ''img.png''"
  let ?t = "pixel_body ?E ?S red_pixel ''img.png'' 0 0 (Map.empty, 1) 0 stocked_host"
  have reuse: "reuse_materials ?S" by (simp add: reuse_settings_def default_settings_def)
  have first: "fst (Map.empty :: color \<rightharpoonup> nat, 1 :: rat) (1, 0, 0, 1) = None" by simp
  have rp: "read_pixel red_pixel (snd (Map.empty :: color \<rightharpoonup> nat, 1 :: rat)) 0 0 = Inr (1, 0, 0, 1)"
    by (simp add: read_pixel_def pixel_at_def red_pixel_def)
  have vis: "\<not> (has_alpha red_pixel \<and> snd (snd (snd (1 :: rat, 0 :: rat, 0 :: rat, 1 :: rat))) = 0)"
    by simp
  have name: "format ?E (material_name ?S)
      (pixel_params ''img.png'' (strcolor (1, 0, 0, 1)) 0 0 (struse_nodes ?S)) = Inr ''pixel_art_FF0000FF''"
    by (simp add: reuse_settings_def default_settings_def format_MATERIAL_NAME strcolor_red)
  have found: "find_name ''pixel_art_FF0000FF'' (map mat_name (bpy_data_materials stocked_host)) = Some 0"
    by (simp add: stocked_host_def empty_host_def)
  have step: "?t = (Inr ([(1, 0, 0, 1) \<mapsto> 0], 1), snd ?t)"
    using red_reuse_turn by (simp add: prod_eq_iff)
  from existing_material_reused [OF reuse first rp vis name found step]
  show ?thesis by simp
qed

end
